theory Spec2Isabelle
  imports Main "HOL-Library.Sublist"
begin

section \<open>Strings\<close>

text \<open>
  A JavaScript string is modelled as a \<^typ>\<open>string\<close>: a list of code units, here the
  code units below 256. Only three string operations of the platform are used by the
  code: \<open>String.prototype.includes\<close>, \<open>String.prototype.trim\<close> and the
  rendering of a number inside a template literal.
\<close>

text \<open>
  \<open>d.includes(s)\<close>: \<open>s\<close> occurs in \<open>d\<close> as a contiguous run of code units,
  starting at some position. The comparison is exact, so it is case-sensitive. The empty
  string occurs in every string.
\<close>

fun js_includes :: "string \<Rightarrow> string \<Rightarrow> bool" where
  "js_includes [] s = (s = [])"
| "js_includes (c # cs) s = (prefix s (c # cs) \<or> js_includes cs s)"

text \<open>
  The white space and line terminator code units that \<open>trim\<close> strips, among the code
  units below 256: TAB, LF, VT, FF, CR, SPACE and NO-BREAK SPACE.
\<close>

definition is_white_space :: "char \<Rightarrow> bool" where
  "is_white_space c = (of_char c \<in> {9, 10, 11, 12, 13, 32, 160 :: nat})"

definition trim :: "string \<Rightarrow> string" where
  "trim s = rev (dropWhile is_white_space (rev (dropWhile is_white_space s)))"

text \<open>
  A number inside a template literal, \<open>`${n}`\<close>, for a non-negative integer \<open>n\<close>
  (an HTTP status): its decimal digits, most significant first, with no leading zero.
\<close>

definition digit_char :: "nat \<Rightarrow> char" where
  "digit_char k = char_of (of_char CHR ''0'' + k)"

fun number_to_string :: "nat \<Rightarrow> string" where
  "number_to_string n =
     (if 10 \<le> n then number_to_string (n div 10) @ [digit_char (n mod 10)]
      else [digit_char n])"

declare number_to_string.simps [simp del]

section \<open>The error classifier\<close>

text \<open>
  \<open>parseErrorMessage\<close> of the API client: four conditionals in sequence, each
  returning a fixed message, and the argument itself when none fires.
\<close>

definition parseErrorMessage :: "string \<Rightarrow> string" where
  "parseErrorMessage errorDetail =
     (if js_includes errorDetail ''insufficient_quota'' \<or> js_includes errorDetail ''quota'' then
        ''OpenAI API quota exceeded. Please check your OpenAI account billing and usage limits. You may need to add payment information or upgrade your plan.''
      else if js_includes errorDetail ''OPENAI_API_KEY'' \<or> js_includes errorDetail ''api key'' then
        ''OpenAI API key is not configured. Please set the OPENAI_API_KEY environment variable in your backend.''
      else if js_includes errorDetail ''401'' \<or> js_includes errorDetail ''unauthorized''
              \<or> js_includes errorDetail ''Invalid API key'' then
        ''Invalid OpenAI API key. Please check your API key configuration.''
      else if js_includes errorDetail ''429'' \<or> js_includes errorDetail ''rate limit'' then
        ''Rate limit exceeded. Please wait a moment and try again.''
      else errorDetail)"

subsection \<open>The classifier as the specification words it\<close>

text \<open>
  The specification describes the classifier as an ordered table of rules, each a set of
  trigger substrings with a fixed message, evaluated in priority order; the first rule
  with a trigger occurring in the detail decides, and the detail passes through when no
  rule has one. This second definition follows those words; it is compared with the
  definition taken from the source.
\<close>

definition quota_message :: string where
  "quota_message = ''OpenAI API quota exceeded. Please check your OpenAI account billing and usage limits. You may need to add payment information or upgrade your plan.''"

definition missing_key_message :: string where
  "missing_key_message = ''OpenAI API key is not configured. Please set the OPENAI_API_KEY environment variable in your backend.''"

definition invalid_key_message :: string where
  "invalid_key_message = ''Invalid OpenAI API key. Please check your API key configuration.''"

definition rate_limit_message :: string where
  "rate_limit_message = ''Rate limit exceeded. Please wait a moment and try again.''"

definition classifier_rules :: "(string list \<times> string) list" where
  "classifier_rules =
     [([''insufficient_quota'', ''quota''], quota_message),
      ([''OPENAI_API_KEY'', ''api key''], missing_key_message),
      ([''401'', ''unauthorized'', ''Invalid API key''], invalid_key_message),
      ([''429'', ''rate limit''], rate_limit_message)]"

fun first_matching_rule :: "(string list \<times> string) list \<Rightarrow> string \<Rightarrow> string" where
  "first_matching_rule [] d = d"
| "first_matching_rule ((triggers, msg) # rules) d =
     (if list_ex (js_includes d) triggers then msg
      else first_matching_rule rules d)"

definition classify :: "string \<Rightarrow> string" where
  "classify d = first_matching_rule classifier_rules d"

definition matches_some_rule :: "string \<Rightarrow> bool" where
  "matches_some_rule d =
     list_ex (\<lambda>(triggers, msg). list_ex (js_includes d) triggers) classifier_rules"

section \<open>The API client\<close>

subsection \<open>The base address\<close>

text \<open>
  What \<open>getApiBaseUrl\<close> reads from its surroundings: the environment variable
  \<open>NEXT_PUBLIC_API_URL\<close> (\<open>None\<close> when it is undefined) and, when a \<open>window\<close>
  object exists, \<open>window.location.hostname\<close> (\<open>None\<close> when
  \<open>typeof window\<close> is \<open>'undefined'\<close>).
\<close>

record exec_context =
  NEXT_PUBLIC_API_URL :: "string option"
  window_hostname :: "string option"

text \<open>
  The condition \<open>if (process.env.NEXT_PUBLIC_API_URL)\<close> tests the value for
  truthiness: \<open>undefined\<close> and the empty string are both falsy.
\<close>

definition getApiBaseUrl :: "exec_context \<Rightarrow> string" where
  "getApiBaseUrl ctx =
     (let fallthrough =
        (case window_hostname ctx of
           Some hostname \<Rightarrow>
             (let isLocalhost = (hostname = ''localhost'' \<or> hostname = ''127.0.0.1'')
              in if isLocalhost then ''http://localhost:8000'' else [])
         | None \<Rightarrow> ''http://localhost:8000'')
      in case NEXT_PUBLIC_API_URL ctx of
           None \<Rightarrow> fallthrough
         | Some u \<Rightarrow> if u = [] then fallthrough else u)"

subsection \<open>Requests, responses and thrown values\<close>

text \<open>
  A value that a JavaScript \<open>throw\<close> or a rejected promise carries: an instance of
  \<open>Error\<close> (of any subclass) with its message, or a value that is no \<open>Error\<close>.
\<close>

datatype thrown = Error (error_message: string) | NonError

record ChatRequest =
  message :: string

record ChatResponse =
  reply :: string

text \<open>
  The interface \<open>ChatError\<close> declares \<open>detail\<close> a string; the client guards the
  read with \<open>errorData.detail || ...\<close>, so a parsed body whose \<open>detail\<close> is missing
  is admitted here as \<open>None\<close>.
\<close>

record ChatError =
  detail :: "string option"

text \<open>
  The value that \<open>response.json()\<close> resolves with on a response that is not ok. JSON
  \<open>null\<close> is the one parsed value that has no properties at all: reading
  \<open>errorData.detail\<close> of it throws a \<open>TypeError\<close>. Every other parsed value is
  read through the interface \<open>ChatError\<close>, with \<open>detail\<close> \<open>None\<close> when the value
  has no such property.
\<close>

datatype error_body = JsonNull | JsonValue ChatError

record request =
  url :: string
  http_method :: string
  headers :: "(string \<times> string) list"
  body :: ChatRequest

text \<open>
  The body of the request is \<open>JSON.stringify({ message })\<close>; the record holds the
  object that is serialised.
\<close>

text \<open>
  A response as \<open>sendMessage\<close> reads it: \<open>response.ok\<close>, \<open>response.status\<close> and
  the outcome of \<open>response.json()\<close>, which rejects with a thrown value or resolves with
  the parsed body. The platform sets \<open>response.ok\<close> exactly for a status from 200 to
  299. The two constructors are the two values of \<open>response.ok\<close>, so the test
  \<open>if (!response.ok)\<close> is the case distinction on them; the parsed body has the type
  the source gives it on each path: a \<open>ChatError\<close>, or \<open>null\<close>, where
  \<open>response.ok\<close> is false, a \<open>ChatResponse\<close> where it is true.
\<close>

datatype response =
    ErrorResponse (status: nat) (error_json: "thrown + error_body")
  | OkResponse (status: nat) (ok_json: "thrown + ChatResponse")

fun ok :: "response \<Rightarrow> bool" where
  "ok (ErrorResponse s j) = False"
| "ok (OkResponse s j) = True"

text \<open>The promise returned by \<open>fetch\<close> rejects with a thrown value or resolves with a response.\<close>

datatype fetch_outcome = Rejects thrown | Resolves response

subsection \<open>sendMessage\<close>

definition sendMessage_request :: "string \<Rightarrow> string \<Rightarrow> request" where
  "sendMessage_request API_BASE_URL msg =
     \<lparr>url = API_BASE_URL @ ''/api/chat'',
      http_method = ''POST'',
      headers = [(''Content-Type'', ''application/json'')],
      body = \<lparr>message = msg\<rparr>\<rparr>"

text \<open>
  \<open>errorData\<close> is the parsed body, or the synthesized one when \<open>response.json()\<close>
  rejects.
\<close>

definition errorData :: "nat \<Rightarrow> thrown + error_body \<Rightarrow> error_body" where
  "errorData st j =
     (case j of
        Inl e \<Rightarrow> JsonValue \<lparr>detail = Some (''HTTP error! status: '' @ number_to_string st)\<rparr>
      | Inr parsed \<Rightarrow> parsed)"

text \<open>
  The property read \<open>errorData.detail\<close>. On \<open>null\<close> it throws a \<open>TypeError\<close>,
  which is an \<open>Error\<close>; the text of its message is the engine's, here that of V8.
\<close>

definition read_detail :: "error_body \<Rightarrow> thrown + string option" where
  "read_detail b =
     (case b of
        JsonNull \<Rightarrow> Inl (Error ''Cannot read properties of null (reading 'detail')'')
      | JsonValue v \<Rightarrow> Inr (detail v))"

text \<open>
  The argument of \<open>parseErrorMessage\<close> on the path of a response that is not ok,
  \<open>errorData.detail || `Request failed with status ${response.status}`\<close>: a falsy
  \<open>detail\<close> (missing or empty) is replaced; \<open>Inl\<close> is the value thrown by the
  property read.
\<close>

definition error_detail :: "nat \<Rightarrow> thrown + error_body \<Rightarrow> thrown + string" where
  "error_detail st j =
     (case read_detail (errorData st j) of
        Inl e \<Rightarrow> Inl e
      | Inr (Some d) \<Rightarrow>
          Inr (if d = [] then ''Request failed with status '' @ number_to_string st else d)
      | Inr None \<Rightarrow> Inr (''Request failed with status '' @ number_to_string st))"

text \<open>The body of the \<open>try\<close>: \<open>Inl\<close> is a value thrown inside it, \<open>Inr\<close> the value returned.\<close>

definition try_block :: "fetch_outcome \<Rightarrow> thrown + ChatResponse" where
  "try_block outcome =
     (case outcome of
        Rejects e \<Rightarrow> Inl e
      | Resolves (ErrorResponse st j) \<Rightarrow>
          (case error_detail st j of
             Inl e \<Rightarrow> Inl e
           | Inr d \<Rightarrow>
               (let userFriendlyMessage = parseErrorMessage d
                in Inl (Error userFriendlyMessage)))
      | Resolves (OkResponse st j) \<Rightarrow>
          (case j of Inl e \<Rightarrow> Inl e | Inr data \<Rightarrow> Inr data))"

text \<open>The \<open>catch\<close> clause: it always throws, and this is the value it throws.\<close>

definition catch_block :: "thrown \<Rightarrow> thrown" where
  "catch_block e =
     (case e of
        Error m \<Rightarrow>
          if js_includes m ''fetch'' \<or> js_includes m ''Failed to fetch'' then
            Error ''Unable to connect to the server. Please make sure the backend is running on http://localhost:8000''
          else Error m
      | NonError \<Rightarrow> Error ''An unexpected error occurred'')"

text \<open>
  What \<open>sendMessage\<close> does once the promise of \<open>fetch\<close> has settled, and the whole
  function, with \<open>fetch\<close> and the module constant \<open>API_BASE_URL\<close> as parameters.
\<close>

definition sendMessage_settle :: "fetch_outcome \<Rightarrow> thrown + ChatResponse" where
  "sendMessage_settle outcome =
     (case try_block outcome of
        Inl e \<Rightarrow> Inl (catch_block e)
      | Inr data \<Rightarrow> Inr data)"

definition sendMessage :: "string \<Rightarrow> (request \<Rightarrow> fetch_outcome) \<Rightarrow> string \<Rightarrow> thrown + ChatResponse" where
  "sendMessage API_BASE_URL fetch msg = sendMessage_settle (fetch (sendMessage_request API_BASE_URL msg))"

definition connectivity_message :: string where
  "connectivity_message = ''Unable to connect to the server. Please make sure the backend is running on http://localhost:8000''"

section \<open>The conversation controller\<close>

datatype role = User | Assistant

text \<open>A timestamp is the reading of the clock at \<open>new Date()\<close>, a number.\<close>

record Message =
  role :: role
  content :: string
  timestamp :: nat

text \<open>The four state variables of the component \<open>Home\<close>.\<close>

record state =
  messages :: "Message list"
  input :: string
  isLoading :: bool
  error :: "string option"

definition initial_state :: "nat \<Rightarrow> state" where
  "initial_state now =
     \<lparr>messages =
        [\<lparr>role = Assistant,
          content = ''Hello! I'm your supportive mental coach. I'm here to help you with stress, motivation, habits, and confidence. What's on your mind today?'',
          timestamp = now\<rparr>],
      input = [],
      isLoading = False,
      error = None\<rparr>"

text \<open>
  \<open>handleSubmit\<close> runs in two parts, divided by its \<open>await\<close>. The first part runs
  when the form is submitted: it returns the new state and the message handed to
  \<open>sendMessage\<close>, or the state as it was and no message when the guard returns early.
  The argument is the state as the handler reads it.
\<close>

definition handleSubmit_start :: "state \<Rightarrow> nat \<Rightarrow> state \<times> string option" where
  "handleSubmit_start s now =
     (if trim (input s) = [] \<or> isLoading s then (s, None)
      else
        let userMessage = \<lparr>role = User, content = trim (input s), timestamp = now\<rparr>
        in (s\<lparr>messages := messages s @ [userMessage],
               input := [],
               isLoading := True,
               error := None\<rparr>,
            Some (content userMessage)))"

text \<open>The framing chosen in the \<open>catch\<close> clause of \<open>handleSubmit\<close>.\<close>

definition userFriendlyError :: "string \<Rightarrow> string" where
  "userFriendlyError errorMessage =
     (if js_includes errorMessage ''quota'' \<or> js_includes errorMessage ''billing'' then
        ''I'm unable to respond right now due to an API quota issue. '' @ errorMessage
      else if js_includes errorMessage ''API key'' then
        ''Configuration issue: '' @ errorMessage
      else ''Sorry, I encountered an error: '' @ errorMessage @ ''. Please try again.'')"

text \<open>
  The second part runs when the promise of \<open>sendMessage\<close> has settled, on the state
  of that moment: \<open>try\<close> on a returned value, \<open>catch\<close> on a thrown one, then
  \<open>finally\<close>.
\<close>

definition handleSubmit_settle :: "state \<Rightarrow> thrown + ChatResponse \<Rightarrow> nat \<Rightarrow> state" where
  "handleSubmit_settle s result now =
     (case result of
        Inr response \<Rightarrow>
          (let assistantMessage = \<lparr>role = Assistant, content = reply response, timestamp = now\<rparr>
           in s\<lparr>messages := messages s @ [assistantMessage]\<rparr>)
      | Inl err \<Rightarrow>
          (let errorMessage =
                 (case err of
                    Error m \<Rightarrow> m
                  | NonError \<Rightarrow> ''Failed to get response. Please try again.'');
               errorMsg = \<lparr>role = Assistant, content = userFriendlyError errorMessage, timestamp = now\<rparr>
           in s\<lparr>error := Some errorMessage, messages := messages s @ [errorMsg]\<rparr>))
     \<lparr>isLoading := False\<rparr>"

text \<open>
  One whole run of \<open>handleSubmit\<close> with nothing between its two parts: submitted at
  \<open>t1\<close>, settled at \<open>t2\<close>.
\<close>

definition handleSubmit :: "string \<Rightarrow> (request \<Rightarrow> fetch_outcome) \<Rightarrow> state \<Rightarrow> nat \<Rightarrow> nat \<Rightarrow> state" where
  "handleSubmit API_BASE_URL fetch s t1 t2 =
     (case handleSubmit_start s t1 of
        (s', None) \<Rightarrow> s'
      | (s', Some msg) \<Rightarrow> handleSubmit_settle s' (sendMessage API_BASE_URL fetch msg) t2)"

subsection \<open>The component over time\<close>

text \<open>
  The component: its current state, the state it was last rendered from, and the
  requests that \<open>sendMessage\<close> has issued and whose promises have not settled yet.

  \<open>input\<close> and \<open>isLoading\<close> in \<open>handleSubmit\<close> are the constants that the render
  which created the handler took from \<open>useState\<close>; they do not change when a setter is
  called, only the next render reads the new values. \<open>setMessages\<close> is called with an
  updater, which is applied to the current log; the other setters store constants. So
  the handler works on the current state with \<open>input\<close> and \<open>isLoading\<close> as rendered.
\<close>

record system =
  ui :: state
  rendered :: state
  in_flight :: "request list"

definition handler_view :: "system \<Rightarrow> state" where
  "handler_view sys = (ui sys)\<lparr>input := input (rendered sys), isLoading := isLoading (rendered sys)\<rparr>"

text \<open>
  The events: the component renders again; the form is submitted; the text field
  changes (\<open>onChange\<close> calls \<open>setInput\<close>); the pending request at a position settles
  with an outcome of \<open>fetch\<close>. A settle event for a position with no pending request
  cannot happen and changes nothing.
\<close>

datatype event = Render | Submit nat | Change string | Settle nat fetch_outcome nat

fun step :: "string \<Rightarrow> system \<Rightarrow> event \<Rightarrow> system" where
  "step API_BASE_URL sys Render = sys\<lparr>rendered := ui sys\<rparr>"
| "step API_BASE_URL sys (Submit now) =
     (case handleSubmit_start (handler_view sys) now of
        (s', None) \<Rightarrow> sys
      | (s', Some msg) \<Rightarrow>
          sys\<lparr>ui := s', in_flight := in_flight sys @ [sendMessage_request API_BASE_URL msg]\<rparr>)"
| "step API_BASE_URL sys (Change v) = sys\<lparr>ui := (ui sys)\<lparr>input := v\<rparr>\<rparr>"
| "step API_BASE_URL sys (Settle i outcome now) =
     (if i < length (in_flight sys) then
        sys\<lparr>ui := handleSubmit_settle (ui sys) (sendMessage_settle outcome) now,
            in_flight := take i (in_flight sys) @ drop (Suc i) (in_flight sys)\<rparr>
      else sys)"


definition initial_system :: "nat \<Rightarrow> system" where
  "initial_system now =
     \<lparr>ui = initial_state now, rendered = initial_state now, in_flight = []\<rparr>"

text \<open>
  The content of the assistant message that the second part of \<open>handleSubmit\<close>
  appends: \<open>response.reply\<close> in the \<open>try\<close>, \<open>userFriendlyError\<close> in the
  \<open>catch\<close>.
\<close>

definition assistant_content :: "thrown + ChatResponse \<Rightarrow> string" where
  "assistant_content result =
     (case result of
        Inr response \<Rightarrow> reply response
      | Inl (Error m) \<Rightarrow> userFriendlyError m
      | Inl NonError \<Rightarrow> userFriendlyError ''Failed to get response. Please try again.'')"

text \<open>
  What the guard of \<open>handleSubmit\<close> is there to keep: the log is not empty, a request
  is pending exactly while \<open>isLoading\<close> is set, there is at most one, and the log ends
  with a user message exactly then.
\<close>

definition consistent :: "system \<Rightarrow> bool" where
  "consistent sys \<longleftrightarrow>
     messages (ui sys) \<noteq> [] \<and>
     length (in_flight sys) = (if isLoading (ui sys) then 1 else 0) \<and>
     (role (last (messages (ui sys))) = User) = isLoading (ui sys)"

section \<open>Facts about strings\<close>

lemma includes_iff: "js_includes d s \<longleftrightarrow> (\<exists>u v. d = u @ s @ v)"
proof (induction d)
  case Nil
  show ?case by auto
next
  case (Cons c cs)
  show ?case
  proof
    assume "js_includes (c # cs) s"
    then consider "prefix s (c # cs)" | "js_includes cs s" by auto
    then show "\<exists>u v. c # cs = u @ s @ v"
    proof cases
      case 1
      then obtain v where "c # cs = s @ v" by (auto simp: prefix_def)
      then have "c # cs = [] @ s @ v" by simp
      then show ?thesis by blast
    next
      case 2
      with Cons obtain u v where "cs = u @ s @ v" by blast
      then have "c # cs = (c # u) @ s @ v" by simp
      then show ?thesis by blast
    qed
  next
    assume "\<exists>u v. c # cs = u @ s @ v"
    then obtain u v where eq: "c # cs = u @ s @ v" by blast
    show "js_includes (c # cs) s"
    proof (cases u)
      case Nil
      with eq have "prefix s (c # cs)" by (simp add: prefix_def)
      then show ?thesis by simp
    next
      case (Cons a u')
      with eq have "cs = u' @ s @ v" by simp
      with Cons.IH have "js_includes cs s" by blast
      then show ?thesis by simp
    qed
  qed
qed

section \<open>The classifier: refinement and idempotence\<close>

lemma classify_unfold:
  "classify d =
     (if js_includes d ''insufficient_quota'' \<or> js_includes d ''quota'' then quota_message
      else if js_includes d ''OPENAI_API_KEY'' \<or> js_includes d ''api key'' then missing_key_message
      else if js_includes d ''401'' \<or> js_includes d ''unauthorized'' \<or> js_includes d ''Invalid API key''
        then invalid_key_message
      else if js_includes d ''429'' \<or> js_includes d ''rate limit'' then rate_limit_message
      else d)"
  by (simp add: classify_def classifier_rules_def)

lemma matches_some_rule_unfold:
  "matches_some_rule d \<longleftrightarrow>
     js_includes d ''insufficient_quota'' \<or> js_includes d ''quota'' \<or>
     js_includes d ''OPENAI_API_KEY'' \<or> js_includes d ''api key'' \<or>
     js_includes d ''401'' \<or> js_includes d ''unauthorized'' \<or> js_includes d ''Invalid API key'' \<or>
     js_includes d ''429'' \<or> js_includes d ''rate limit''"
  by (simp add: matches_some_rule_def classifier_rules_def)

lemma parseErrorMessage_classify: "parseErrorMessage d = classify d"
  unfolding classify_unfold parseErrorMessage_def
    quota_message_def missing_key_message_def invalid_key_message_def rate_limit_message_def
  by (rule refl)

lemma parseErrorMessage_passthrough:
  "\<not> matches_some_rule d \<Longrightarrow> parseErrorMessage d = d"
  by (simp add: parseErrorMessage_def matches_some_rule_unfold)

lemma parseErrorMessage_range:
  "parseErrorMessage d = quota_message \<or> parseErrorMessage d = missing_key_message \<or>
   parseErrorMessage d = invalid_key_message \<or> parseErrorMessage d = rate_limit_message \<or>
   (\<not> matches_some_rule d \<and> parseErrorMessage d = d)"
  unfolding parseErrorMessage_classify matches_some_rule_unfold classify_unfold
  by simp

lemma quota_message_fixed: "parseErrorMessage quota_message = quota_message"
  by code_simp

lemma missing_key_message_fixed: "parseErrorMessage missing_key_message = missing_key_message"
  by code_simp

lemma invalid_key_message_fixed: "parseErrorMessage invalid_key_message = invalid_key_message"
  by code_simp

lemma rate_limit_message_fixed: "parseErrorMessage rate_limit_message = rate_limit_message"
  by code_simp

text \<open>
  C2. The classifier of the source is the ordered-rule reference of the specification:
  it returns the message of the first rule, in the order quota, missing API key, invalid
  credential, rate limit, one of whose case-sensitive trigger substrings occurs in the
  detail; it returns the detail unchanged when no rule has one; and a detail containing
  both \<open>quota\<close> and \<open>429\<close> gets the quota message. Being a HOL function it is pure and
  total.
\<close>

theorem parseErrorMessage_is_ordered_rules:
  "parseErrorMessage d = classify d \<and>
   (\<not> matches_some_rule d \<longrightarrow> parseErrorMessage d = d) \<and>
   (js_includes d ''quota'' \<and> js_includes d ''429'' \<longrightarrow> parseErrorMessage d = quota_message)"
proof (intro conjI impI)
  show "parseErrorMessage d = classify d"
    by (rule parseErrorMessage_classify)
next
  assume "\<not> matches_some_rule d"
  then show "parseErrorMessage d = d"
    by (rule parseErrorMessage_passthrough)
next
  assume "js_includes d ''quota'' \<and> js_includes d ''429''"
  then show "parseErrorMessage d = quota_message"
    by (simp add: parseErrorMessage_def quota_message_def)
qed

theorem parseErrorMessage_is_ordered_rules_witness:
  "js_includes ''429: quota exhausted'' ''quota'' \<and> js_includes ''429: quota exhausted'' ''429'' \<and>
   parseErrorMessage ''429: quota exhausted'' = quota_message \<and>
   parseErrorMessage ''429: quota exhausted'' = classify ''429: quota exhausted'' \<and>
   \<not> matches_some_rule ''random backend failure xyz'' \<and>
   parseErrorMessage ''random backend failure xyz'' = ''random backend failure xyz''"
proof -
  have a: "js_includes ''429: quota exhausted'' ''quota'' \<and> js_includes ''429: quota exhausted'' ''429''"
    by code_simp
  have b: "\<not> matches_some_rule ''random backend failure xyz''"
    by code_simp
  show ?thesis
    using a b
      parseErrorMessage_is_ordered_rules [of "''429: quota exhausted''"]
      parseErrorMessage_is_ordered_rules [of "''random backend failure xyz''"]
    by blast
qed

text \<open>
  C9. The classifier is idempotent: classifying a classified detail changes nothing.
  The quota message contains \<open>quota\<close> and the missing-key message contains
  \<open>OPENAI_API_KEY\<close>, so each is classified as itself; the invalid-credential message
  and the rate-limit message contain no trigger and pass through; a detail that passes
  through is classified as itself again.
\<close>

theorem parseErrorMessage_idempotent:
  "parseErrorMessage (parseErrorMessage d) = parseErrorMessage d \<and>
   js_includes quota_message ''quota'' \<and>
   js_includes missing_key_message ''OPENAI_API_KEY'' \<and>
   \<not> js_includes missing_key_message ''quota'' \<and>
   \<not> matches_some_rule invalid_key_message \<and>
   \<not> matches_some_rule rate_limit_message"
proof (intro conjI)
  show "parseErrorMessage (parseErrorMessage d) = parseErrorMessage d"
    using parseErrorMessage_range [of d] quota_message_fixed missing_key_message_fixed
      invalid_key_message_fixed rate_limit_message_fixed
    by auto
  show "js_includes quota_message ''quota''" by code_simp
  show "js_includes missing_key_message ''OPENAI_API_KEY''" by code_simp
  show "\<not> js_includes missing_key_message ''quota''" by code_simp
  show "\<not> matches_some_rule invalid_key_message" by code_simp
  show "\<not> matches_some_rule rate_limit_message" by code_simp
qed

section \<open>Occurrences in a string that ends with a number\<close>

lemma includes_suffix_of_needle: "js_includes d (a @ b) \<Longrightarrow> js_includes d b"
proof -
  assume "js_includes d (a @ b)"
  then obtain u v where "d = u @ (a @ b) @ v" unfolding includes_iff by blast
  then have "d = (u @ a) @ b @ v" by simp
  then show ?thesis unfolding includes_iff by blast
qed

lemma includes_append_left:
  assumes "s \<noteq> []" and "last s \<notin> set ds"
  shows "js_includes (p @ ds) s \<longleftrightarrow> js_includes p s"
proof
  assume "js_includes (p @ ds) s"
  then obtain u v where "p @ ds = u @ s @ v" unfolding includes_iff by blast
  then have eq: "p @ ds = (u @ s) @ v" by simp
  have "\<exists>w. (p = (u @ s) @ w \<and> w @ ds = v) \<or> (p @ w = u @ s \<and> ds = w @ v)"
    using eq by (simp only: append_eq_append_conv2 [of p ds "u @ s" v])
  then consider w where "p = (u @ s) @ w" | w where "p @ w = u @ s" "ds = w @ v" "w \<noteq> []"
    by (cases "\<exists>w. p = (u @ s) @ w") force+
  then show "js_includes p s"
  proof cases
    case 1
    then have "p = u @ s @ w" by simp
    then show ?thesis unfolding includes_iff by blast
  next
    case 2
    have "last s = last (u @ s)" using assms(1) by simp
    also have "\<dots> = last (p @ w)" using 2(1) by simp
    also have "\<dots> = last w" using 2(3) by simp
    finally have "last s \<in> set w" using 2(3) by simp
    with 2(2) assms(2) show ?thesis by simp
  qed
next
  assume "js_includes p s"
  then obtain u v where "p = u @ s @ v" unfolding includes_iff by blast
  then have "p @ ds = u @ s @ (v @ ds)" by simp
  then show "js_includes (p @ ds) s" unfolding includes_iff by blast
qed

lemma includes_append_right:
  assumes "s \<noteq> []" and "hd s \<notin> set p"
  shows "js_includes (p @ ds) s \<longleftrightarrow> js_includes ds s"
proof
  assume "js_includes (p @ ds) s"
  then obtain u v where eq: "p @ ds = u @ s @ v" unfolding includes_iff by blast
  have "\<exists>w. (p = u @ w \<and> w @ ds = s @ v) \<or> (p @ w = u \<and> ds = w @ s @ v)"
    using eq by (simp only: append_eq_append_conv2 [of p ds u "s @ v"])
  then consider w where "ds = w @ s @ v" | w where "p = u @ w" "w @ ds = s @ v" "w \<noteq> []"
    by (cases "\<exists>w. ds = w @ s @ v") force+
  then show "js_includes ds s"
  proof cases
    case 1
    then show ?thesis unfolding includes_iff by blast
  next
    case 2
    have "hd s = hd (s @ v)" using assms(1) by simp
    also have "\<dots> = hd (w @ ds)" using 2(2) by simp
    also have "\<dots> = hd w" using 2(3) by simp
    finally have "hd s \<in> set w" using 2(3) by simp
    with 2(1) assms(2) show ?thesis by simp
  qed
next
  assume "js_includes ds s"
  then obtain u v where "ds = u @ s @ v" unfolding includes_iff by blast
  then have "p @ ds = (p @ u) @ s @ v" by simp
  then show "js_includes (p @ ds) s" unfolding includes_iff by blast
qed

lemma digit_char_table: "map digit_char [0, 1, 2, 3, 4, 5, 6, 7, 8, 9] = ''0123456789''"
  by code_simp

lemma digit_char_in: "k < 10 \<Longrightarrow> digit_char k \<in> set ''0123456789''"
proof -
  assume "k < 10"
  then have "k \<in> set [0, 1, 2, 3, 4, 5, 6, 7, 8, 9]" by auto
  then have "digit_char k \<in> set (map digit_char [0, 1, 2, 3, 4, 5, 6, 7, 8, 9])"
    unfolding set_map by (rule imageI)
  then show ?thesis by (simp only: digit_char_table)
qed

lemma number_to_string_digits: "set (number_to_string n) \<subseteq> set ''0123456789''"
proof (induction n rule: number_to_string.induct)
  case (1 n)
  show ?case
  proof (cases "10 \<le> n")
    case True
    have "n mod 10 < 10" by simp
    then have "digit_char (n mod 10) \<in> set ''0123456789''" by (rule digit_char_in)
    with True 1 show ?thesis by (subst number_to_string.simps) simp
  next
    case False
    then have "n < 10" by simp
    then have "digit_char n \<in> set ''0123456789''" by (rule digit_char_in)
    with False show ?thesis by (subst number_to_string.simps) simp
  qed
qed

lemma digit_needle_not_in_digits:
  assumes "s \<noteq> []" and "last s \<notin> set ''0123456789''"
  shows "js_includes (p @ number_to_string n) s \<longleftrightarrow> js_includes p s"
proof -
  have "last s \<notin> set (number_to_string n)"
    using number_to_string_digits [of n] assms(2) by blast
  with assms(1) show ?thesis by (rule includes_append_left)
qed

lemma number_to_string_below_10: "n < 10 \<Longrightarrow> number_to_string n = [digit_char n]"
  by (subst number_to_string.simps) simp

lemma number_to_string_below_100:
  "10 \<le> n \<Longrightarrow> n < 100 \<Longrightarrow> number_to_string n = [digit_char (n div 10), digit_char (n mod 10)]"
  by (subst number_to_string.simps) (simp add: number_to_string_below_10)

lemma number_to_string_below_1000:
  assumes "100 \<le> n" and "n < 1000"
  shows "number_to_string n =
    [digit_char (n div 100), digit_char (n div 10 mod 10), digit_char (n mod 10)]"
proof -
  have a: "10 \<le> n div 10" "n div 10 < 100" using assms by auto
  have "n div 10 div 10 = n div 100" by (simp add: div_mult2_eq)
  with a show ?thesis using assms
    by (subst number_to_string.simps) (simp add: number_to_string_below_100)
qed

lemma of_char_digit_char: "k < 10 \<Longrightarrow> (of_char (digit_char k) :: nat) = 48 + k"
  by (simp add: digit_char_def)

lemma digit_char_inj:
  assumes "a < 10" and "b < 10"
  shows "digit_char a = digit_char b \<longleftrightarrow> a = b"
proof
  assume "digit_char a = digit_char b"
  then have "(of_char (digit_char a) :: nat) = of_char (digit_char b)" by simp
  with assms show "a = b" by (simp add: of_char_digit_char)
qed simp

lemma digits_401: "[digit_char 4, digit_char 0, digit_char 1] = ''401''"
  and digits_429: "[digit_char 4, digit_char 2, digit_char 9] = ''429''"
  by code_simp+

lemma three_digit_number:
  assumes "a < 10" "b < 10" "c < 10"
  shows "(n div 100 = a \<and> n div 10 mod 10 = b \<and> n mod 10 = c) \<longleftrightarrow> (n::nat) = 100 * a + 10 * b + c"
proof -
  have h: "n div 100 = n div 10 div 10" by (simp add: div_mult2_eq)
  show ?thesis
  proof
    assume d: "n div 100 = a \<and> n div 10 mod 10 = b \<and> n mod 10 = c"
    have "n = 10 * (n div 10) + n mod 10" by simp
    moreover have "n div 10 = 10 * (n div 10 div 10) + n div 10 mod 10" by simp
    ultimately show "n = 100 * a + 10 * b + c" using d h by linarith
  next
    assume e: "n = 100 * a + 10 * b + c"
    define k where "k = a * 10 + b"
    have nk: "n = k * 10 + c" unfolding k_def using e by simp
    have k: "n div 10 = k" and m: "n mod 10 = c" unfolding nk using assms(3) by simp_all
    have "k div 10 = a" and "k mod 10 = b" unfolding k_def using assms(2) by simp_all
    with h m k show "n div 100 = a \<and> n div 10 mod 10 = b \<and> n mod 10 = c" by simp
  qed
qed

lemma three_digits_eq:
  assumes "a < 10" "b < 10" "c < 10" "n < 1000" "0 < a"
  shows "js_includes (number_to_string n) [digit_char a, digit_char b, digit_char c]
    \<longleftrightarrow> n = 100 * a + 10 * b + c"
proof (cases "100 \<le> n")
  case True
  have d: "n div 100 < 10" "n div 10 mod 10 < 10" "n mod 10 < 10" using assms(4) by auto
  have "js_includes (number_to_string n) [digit_char a, digit_char b, digit_char c]
    \<longleftrightarrow> n div 100 = a \<and> n div 10 mod 10 = b \<and> n mod 10 = c"
    using True assms d by (simp add: number_to_string_below_1000 digit_char_inj eq_commute)
  also have "\<dots> \<longleftrightarrow> n = 100 * a + 10 * b + c"
    using assms(1-3) by (rule three_digit_number)
  finally show ?thesis .
next
  case False
  then have "length (number_to_string n) < 3"
    by (cases "10 \<le> n") (simp_all add: number_to_string_below_100 number_to_string_below_10)
  then have "\<not> js_includes (number_to_string n) [digit_char a, digit_char b, digit_char c]"
    unfolding includes_iff by auto
  moreover have "n \<noteq> 100 * a + 10 * b + c" using False assms(5) by simp
  ultimately show ?thesis by simp
qed

lemma includes_401: "n < 1000 \<Longrightarrow> js_includes (number_to_string n) ''401'' \<longleftrightarrow> n = 401"
  using three_digits_eq [of 4 0 1 n] unfolding digits_401 by simp

lemma includes_429: "n < 1000 \<Longrightarrow> js_includes (number_to_string n) ''429'' \<longleftrightarrow> n = 429"
  using three_digits_eq [of 4 2 9 n] unfolding digits_429 by simp

section \<open>The API client: failures of a response that is not ok\<close>

lemma word_not_in_http_error:
  assumes "s \<noteq> []" and "last s \<notin> set ''0123456789''"
    and "\<not> js_includes ''HTTP error! status: '' s"
  shows "\<not> js_includes (''HTTP error! status: '' @ number_to_string n) s"
  using assms digit_needle_not_in_digits [of s "''HTTP error! status: ''" n] by blast

lemma digits_in_http_error:
  assumes "s \<noteq> []" and "hd s \<notin> set ''HTTP error! status: ''"
  shows "js_includes (''HTTP error! status: '' @ number_to_string n) s
    \<longleftrightarrow> js_includes (number_to_string n) s"
  using assms by (rule includes_append_right)

lemma http_error_words:
  "\<not> js_includes (''HTTP error! status: '' @ number_to_string n) ''insufficient_quota''"
  "\<not> js_includes (''HTTP error! status: '' @ number_to_string n) ''quota''"
  "\<not> js_includes (''HTTP error! status: '' @ number_to_string n) ''OPENAI_API_KEY''"
  "\<not> js_includes (''HTTP error! status: '' @ number_to_string n) ''api key''"
  "\<not> js_includes (''HTTP error! status: '' @ number_to_string n) ''unauthorized''"
  "\<not> js_includes (''HTTP error! status: '' @ number_to_string n) ''Invalid API key''"
  "\<not> js_includes (''HTTP error! status: '' @ number_to_string n) ''rate limit''"
  "\<not> js_includes (''HTTP error! status: '' @ number_to_string n) ''fetch''"
  "\<not> js_includes (''HTTP error! status: '' @ number_to_string n) ''Failed to fetch''"
  by (rule word_not_in_http_error, simp, simp, code_simp)+

lemma http_error_digits:
  "js_includes (''HTTP error! status: '' @ number_to_string n) ''401''
     \<longleftrightarrow> js_includes (number_to_string n) ''401''"
  "js_includes (''HTTP error! status: '' @ number_to_string n) ''429''
     \<longleftrightarrow> js_includes (number_to_string n) ''429''"
  by (rule digits_in_http_error, simp, simp)+

lemma parseErrorMessage_http_error:
  "parseErrorMessage (''HTTP error! status: '' @ number_to_string n) =
     (if js_includes (number_to_string n) ''401'' then invalid_key_message
      else if js_includes (number_to_string n) ''429'' then rate_limit_message
      else ''HTTP error! status: '' @ number_to_string n)"
  unfolding parseErrorMessage_def invalid_key_message_def rate_limit_message_def
  by (simp only: http_error_words http_error_digits simp_thms if_False)

lemma matches_http_error:
  "matches_some_rule (''HTTP error! status: '' @ number_to_string n) \<longleftrightarrow>
     js_includes (number_to_string n) ''401'' \<or> js_includes (number_to_string n) ''429''"
  unfolding matches_some_rule_unfold
  by (simp only: http_error_words http_error_digits simp_thms)

lemma fixed_messages_no_fetch:
  "\<not> js_includes invalid_key_message ''fetch''"
  "\<not> js_includes rate_limit_message ''fetch''"
  "\<not> js_includes invalid_key_message ''Failed to fetch''"
  "\<not> js_includes rate_limit_message ''Failed to fetch''"
  by code_simp+

lemma catch_block_no_fetch: "\<not> js_includes m ''fetch'' \<Longrightarrow> catch_block (Error m) = Error m"
proof -
  assume a: "\<not> js_includes m ''fetch''"
  have "js_includes m (''Failed to '' @ ''fetch'') \<Longrightarrow> js_includes m ''fetch''"
    by (rule includes_suffix_of_needle)
  with a have "\<not> js_includes m ''Failed to fetch''" by auto
  with a show ?thesis by (simp add: catch_block_def)
qed

lemma catch_block_fetch:
  "js_includes m ''fetch'' \<Longrightarrow> catch_block (Error m) = Error connectivity_message"
  by (simp add: catch_block_def connectivity_message_def)

lemma settle_error_response:
  "sendMessage_settle (Resolves (ErrorResponse st j)) =
     (case error_detail st j of
        Inl e \<Rightarrow> Inl (catch_block e)
      | Inr d \<Rightarrow> Inl (catch_block (Error (parseErrorMessage d))))"
  by (simp add: sendMessage_settle_def try_block_def split: sum.split)

lemma error_detail_unparsable:
  "error_detail st (Inl e) = Inr (''HTTP error! status: '' @ number_to_string st)"
proof -
  have "number_to_string st \<noteq> []" by (subst number_to_string.simps) simp
  then show ?thesis by (simp add: error_detail_def errorData_def read_detail_def)
qed

lemma settle_unparsable:
  "sendMessage_settle (Resolves (ErrorResponse st (Inl e))) =
     Inl (Error (parseErrorMessage (''HTTP error! status: '' @ number_to_string st)))"
proof -
  have "\<not> js_includes (parseErrorMessage (''HTTP error! status: '' @ number_to_string st)) ''fetch''"
    unfolding parseErrorMessage_http_error
    using fixed_messages_no_fetch http_error_words by simp
  then show ?thesis
    unfolding settle_error_response error_detail_unparsable by (simp add: catch_block_no_fetch)
qed

text \<open>
  C3, as the code has it. When the body of a response that is not ok cannot be parsed,
  the detail handed to the classifier is exactly \<open>HTTP error! status: <code>\<close>, and
  \<open>sendMessage\<close> fails with the classification of that detail. For a status below
  1000 other than 401 and 429 no rule matches and the failure carries that exact string.
  For status 401 the detail contains the trigger \<open>401\<close> and the failure carries the
  invalid-credential message; for status 429 it contains \<open>429\<close> and the failure
  carries the rate-limit message.
\<close>

theorem sendMessage_unparsable_error_body:
  assumes "fetch (sendMessage_request API_BASE_URL msg) = Resolves (ErrorResponse st (Inl e))"
  shows "error_detail st (Inl e) = Inr (''HTTP error! status: '' @ number_to_string st) \<and>
    sendMessage API_BASE_URL fetch msg =
      Inl (Error (parseErrorMessage (''HTTP error! status: '' @ number_to_string st))) \<and>
    (st < 1000 \<and> st \<noteq> 401 \<and> st \<noteq> 429 \<longrightarrow>
       \<not> matches_some_rule (''HTTP error! status: '' @ number_to_string st) \<and>
       sendMessage API_BASE_URL fetch msg =
         Inl (Error (''HTTP error! status: '' @ number_to_string st))) \<and>
    (st = 401 \<longrightarrow> sendMessage API_BASE_URL fetch msg = Inl (Error invalid_key_message)) \<and>
    (st = 429 \<longrightarrow> sendMessage API_BASE_URL fetch msg = Inl (Error rate_limit_message))"
proof -
  have s: "sendMessage API_BASE_URL fetch msg =
      Inl (Error (parseErrorMessage (''HTTP error! status: '' @ number_to_string st)))"
    unfolding sendMessage_def assms by (rule settle_unparsable)
  have a: "st < 1000 \<Longrightarrow> st \<noteq> 401 \<Longrightarrow> st \<noteq> 429 \<Longrightarrow>
      \<not> matches_some_rule (''HTTP error! status: '' @ number_to_string st) \<and>
       parseErrorMessage (''HTTP error! status: '' @ number_to_string st) =
         ''HTTP error! status: '' @ number_to_string st"
    unfolding matches_http_error parseErrorMessage_http_error
    by (simp add: includes_401 includes_429)
  have b: "st = 401 \<Longrightarrow>
      parseErrorMessage (''HTTP error! status: '' @ number_to_string st) = invalid_key_message"
    unfolding parseErrorMessage_http_error by (simp add: includes_401)
  have c: "st = 429 \<Longrightarrow>
      parseErrorMessage (''HTTP error! status: '' @ number_to_string st) = rate_limit_message"
    unfolding parseErrorMessage_http_error by (simp add: includes_401 includes_429)
  show ?thesis using s a b c error_detail_unparsable [of st e] by simp
qed

theorem sendMessage_unparsable_error_body_witness:
  "sendMessage ''http://localhost:8000''
     (\<lambda>r. Resolves (ErrorResponse 500 (Inl (Error ''Unexpected token < in JSON at position 0''))))
     ''hello'' = Inl (Error ''HTTP error! status: 500'') \<and>
   \<not> matches_some_rule ''HTTP error! status: 500'' \<and>
   sendMessage ''http://localhost:8000''
     (\<lambda>r. Resolves (ErrorResponse 401 (Inl (Error ''Unexpected end of JSON input''))))
     ''hello'' = Inl (Error invalid_key_message) \<and>
   sendMessage ''http://localhost:8000''
     (\<lambda>r. Resolves (ErrorResponse 429 (Inl (Error ''Unexpected end of JSON input''))))
     ''hello'' = Inl (Error rate_limit_message)"
proof -
  have n: "number_to_string 500 = ''500''" by code_simp
  show ?thesis
    using
      sendMessage_unparsable_error_body
        [of "\<lambda>r. Resolves (ErrorResponse 500 (Inl (Error ''Unexpected token < in JSON at position 0'')))"
            "''http://localhost:8000''" "''hello''" 500 "Error ''Unexpected token < in JSON at position 0''"]
      sendMessage_unparsable_error_body
        [of "\<lambda>r. Resolves (ErrorResponse 401 (Inl (Error ''Unexpected end of JSON input'')))"
            "''http://localhost:8000''" "''hello''" 401 "Error ''Unexpected end of JSON input''"]
      sendMessage_unparsable_error_body
        [of "\<lambda>r. Resolves (ErrorResponse 429 (Inl (Error ''Unexpected end of JSON input'')))"
            "''http://localhost:8000''" "''hello''" 429 "Error ''Unexpected end of JSON input''"]
    by (auto simp: n)
qed

text \<open>
  C3 as stated fails at status 401 with an unparsable body: the third rule matches the
  synthesized detail, and the failure carries the invalid-credential message instead of
  the synthesized string.
\<close>

theorem unparsable_401_counterexample:
  "matches_some_rule ''HTTP error! status: 401'' \<and>
   error_detail 401 (Inl (Error ''Unexpected token < in JSON at position 0'')) = Inr ''HTTP error! status: 401'' \<and>
   sendMessage ''http://localhost:8000''
     (\<lambda>r. Resolves (ErrorResponse 401 (Inl (Error ''Unexpected token < in JSON at position 0''))))
     ''hello'' = Inl (Error ''Invalid OpenAI API key. Please check your API key configuration.'') \<and>
   ''Invalid OpenAI API key. Please check your API key configuration.'' \<noteq> ''HTTP error! status: 401''"
  by code_simp

section \<open>The API client: transport failures, successes, missing details\<close>

text \<open>
  C4. Every transport failure should make \<open>sendMessage\<close> fail with the fixed message
  about the backend, and an error derived from an HTTP response should never be replaced
  by that message. The code tells a connectivity failure only by the word \<open>fetch\<close> in the
  message of whatever its \<open>catch\<close> receives, and it receives the errors thrown in its own
  \<open>try\<close> as well. So a transport failure whose message is \<open>Load failed\<close> leaves
  \<open>sendMessage\<close> as it came; and a response with status 500 whose detail
  \<open>Could not fetch the completion\<close> passes the classifier unchanged is reported as a
  failure to reach the server.
\<close>

theorem connectivity_message_divergence:
  "sendMessage ''http://localhost:8000'' (\<lambda>r. Rejects (Error ''Load failed'')) ''hello''
     = Inl (Error ''Load failed'') \<and>
   ''Load failed'' \<noteq> connectivity_message \<and>
   parseErrorMessage ''Could not fetch the completion'' = ''Could not fetch the completion'' \<and>
   sendMessage ''http://localhost:8000''
     (\<lambda>r. Resolves (ErrorResponse 500
        (Inr (JsonValue \<lparr>detail = Some ''Could not fetch the completion''\<rparr>))))
     ''hello'' = Inl (Error connectivity_message)"
  by code_simp

text \<open>
  C8. When the response is ok and its body parses, \<open>sendMessage\<close> returns the parsed
  body as it is; the reply is not inspected, so a body whose reply is the empty string
  is returned as a success.
\<close>

theorem sendMessage_success_verbatim:
  "(fetch (sendMessage_request API_BASE_URL msg) = Resolves (OkResponse st (Inr data)) \<longrightarrow>
      sendMessage API_BASE_URL fetch msg = Inr data) \<and>
   (fetch (sendMessage_request API_BASE_URL msg) = Resolves (OkResponse st (Inr \<lparr>reply = []\<rparr>)) \<longrightarrow>
      sendMessage API_BASE_URL fetch msg = Inr \<lparr>reply = []\<rparr>)"
  by (simp add: sendMessage_def sendMessage_settle_def try_block_def)

theorem sendMessage_success_verbatim_witness:
  "sendMessage [] (\<lambda>r. Resolves (OkResponse 200 (Inr \<lparr>reply = []\<rparr>))) ''hello'' = Inr \<lparr>reply = []\<rparr>"
  using sendMessage_success_verbatim
    [of "\<lambda>r. Resolves (OkResponse 200 (Inr \<lparr>reply = []\<rparr>))" "[]" "''hello''" 200 "\<lparr>reply = []\<rparr>"]
  by simp

text \<open>
  A parsed body other than \<open>null\<close> whose detail is missing or empty makes the client
  hand \<open>Request failed with status <code>\<close> to the classifier, and a parsed body never
  makes it synthesize \<open>HTTP error! status: <code>\<close>.
\<close>

lemma error_detail_of_value:
  "(d = None \<or> d = Some [] \<longrightarrow>
      error_detail st (Inr (JsonValue \<lparr>detail = d\<rparr>)) =
        Inr (''Request failed with status '' @ number_to_string st)) \<and>
   (error_detail st (Inr (JsonValue parsed)) = Inr (''Request failed with status '' @ number_to_string st) \<or>
    (\<exists>x. x \<noteq> [] \<and> detail parsed = Some x \<and> error_detail st (Inr (JsonValue parsed)) = Inr x))"
  by (auto simp: error_detail_def errorData_def read_detail_def split: option.splits)

text \<open>
  C10. A response that is not ok whose body parses but has no detail should hand
  \<open>Request failed with status <code>\<close> to the classifier. The body \<open>null\<close> parses and
  has no detail, yet the read \<open>errorData.detail\<close> throws a \<open>TypeError\<close>: the
  classifier is not called, the \<open>catch\<close> finds no \<open>fetch\<close> in the message and throws
  the \<open>TypeError\<close> again, and \<open>sendMessage\<close> fails with that message instead of the
  classified \<open>Request failed with status 500\<close>.
\<close>

theorem null_error_body_divergence:
  "error_detail 500 (Inr JsonNull) = Inl (Error ''Cannot read properties of null (reading 'detail')'') \<and>
   sendMessage ''http://localhost:8000'' (\<lambda>r. Resolves (ErrorResponse 500 (Inr JsonNull))) ''hello''
     = Inl (Error ''Cannot read properties of null (reading 'detail')'') \<and>
   parseErrorMessage ''Request failed with status 500'' = ''Request failed with status 500'' \<and>
   error_detail 500 (Inr (JsonValue \<lparr>detail = None\<rparr>)) = Inr ''Request failed with status 500''"
  by code_simp

section \<open>The base address: precedence\<close>

text \<open>
  C7, as the code has it. The override is tested for truthiness: when
  \<open>NEXT_PUBLIC_API_URL\<close> is set to a string that is not empty, that string is the
  base address. When it is not set, or set to the empty string, the base address is
  \<open>http://localhost:8000\<close> outside a browser and in a browser whose host name is
  \<open>localhost\<close> or \<open>127.0.0.1\<close>, and the empty base (a path relative to the same
  origin) in a browser with any other host name.
\<close>

theorem getApiBaseUrl_precedence:
  "(NEXT_PUBLIC_API_URL ctx = Some u \<and> u \<noteq> [] \<longrightarrow> getApiBaseUrl ctx = u) \<and>
   (NEXT_PUBLIC_API_URL ctx = None \<or> NEXT_PUBLIC_API_URL ctx = Some [] \<longrightarrow>
      (window_hostname ctx = None \<longrightarrow> getApiBaseUrl ctx = ''http://localhost:8000'') \<and>
      (window_hostname ctx = Some ''localhost'' \<or> window_hostname ctx = Some ''127.0.0.1'' \<longrightarrow>
         getApiBaseUrl ctx = ''http://localhost:8000'') \<and>
      (window_hostname ctx = Some h \<and> h \<noteq> ''localhost'' \<and> h \<noteq> ''127.0.0.1'' \<longrightarrow>
         getApiBaseUrl ctx = []))"
  by (auto simp: getApiBaseUrl_def)

theorem getApiBaseUrl_precedence_witness:
  "getApiBaseUrl \<lparr>NEXT_PUBLIC_API_URL = Some ''https://api.example.com'', window_hostname = Some ''localhost''\<rparr>
     = ''https://api.example.com'' \<and>
   getApiBaseUrl \<lparr>NEXT_PUBLIC_API_URL = None, window_hostname = None\<rparr> = ''http://localhost:8000'' \<and>
   getApiBaseUrl \<lparr>NEXT_PUBLIC_API_URL = None, window_hostname = Some ''127.0.0.1''\<rparr> = ''http://localhost:8000'' \<and>
   getApiBaseUrl \<lparr>NEXT_PUBLIC_API_URL = Some [], window_hostname = Some ''chat.example.com''\<rparr> = []"
  using
    getApiBaseUrl_precedence [of "\<lparr>NEXT_PUBLIC_API_URL = Some ''https://api.example.com'', window_hostname = Some ''localhost''\<rparr>" "''https://api.example.com''"]
    getApiBaseUrl_precedence [of "\<lparr>NEXT_PUBLIC_API_URL = None, window_hostname = None\<rparr>"]
    getApiBaseUrl_precedence [of "\<lparr>NEXT_PUBLIC_API_URL = None, window_hostname = Some ''127.0.0.1''\<rparr>"]
    getApiBaseUrl_precedence [of "\<lparr>NEXT_PUBLIC_API_URL = Some [], window_hostname = Some ''chat.example.com''\<rparr>" _ "''chat.example.com''"]
  by simp

text \<open>
  C7 as stated fails in two places. When the override is set to the empty string it is
  not returned: outside a browser the base address is then \<open>http://localhost:8000\<close>.
  And a local host name other than the two that the code compares with does not yield
  the local-development address: in a browser at the loopback address \<open>[::1]\<close>, or at
  \<open>0.0.0.0\<close>, with no override, the base address is the empty one.
\<close>

theorem getApiBaseUrl_precedence_counterexample:
  "NEXT_PUBLIC_API_URL \<lparr>NEXT_PUBLIC_API_URL = Some [], window_hostname = None\<rparr> = Some [] \<and>
   getApiBaseUrl \<lparr>NEXT_PUBLIC_API_URL = Some [], window_hostname = None\<rparr> = ''http://localhost:8000'' \<and>
   getApiBaseUrl \<lparr>NEXT_PUBLIC_API_URL = Some [], window_hostname = None\<rparr> \<noteq> [] \<and>
   getApiBaseUrl \<lparr>NEXT_PUBLIC_API_URL = None, window_hostname = Some ''[::1]''\<rparr> = [] \<and>
   getApiBaseUrl \<lparr>NEXT_PUBLIC_API_URL = None, window_hostname = Some ''0.0.0.0''\<rparr> = [] \<and>
   [] \<noteq> ''http://localhost:8000''"
  by (simp add: getApiBaseUrl_def)

section \<open>The conversation controller: turns and the pending request\<close>

lemma handleSubmit_start_refused:
  "trim (input s) = [] \<or> isLoading s \<Longrightarrow> handleSubmit_start s now = (s, None)"
  by (simp add: handleSubmit_start_def)

lemma handleSubmit_start_accepted:
  "trim (input s) \<noteq> [] \<Longrightarrow> \<not> isLoading s \<Longrightarrow>
   handleSubmit_start s now =
     (s\<lparr>messages := messages s @ [\<lparr>role = User, content = trim (input s), timestamp = now\<rparr>],
        input := [], isLoading := True, error := None\<rparr>,
      Some (trim (input s)))"
  by (simp add: handleSubmit_start_def)

lemma messages_handleSubmit_settle:
  "messages (handleSubmit_settle s result now) =
     messages s @ [\<lparr>role = Assistant, content = assistant_content result, timestamp = now\<rparr>]"
  by (simp add: handleSubmit_settle_def assistant_content_def Let_def split: sum.split thrown.split)

lemma isLoading_handleSubmit_settle: "\<not> isLoading (handleSubmit_settle s result now)"
  by (simp add: handleSubmit_settle_def)

lemma input_handleSubmit_settle: "input (handleSubmit_settle s result now) = input s"
  by (simp add: handleSubmit_settle_def Let_def split: sum.split thrown.split)

lemma handler_view_fields:
  "input (handler_view sys) = input (rendered sys)"
  "isLoading (handler_view sys) = isLoading (rendered sys)"
  "messages (handler_view sys) = messages (ui sys)"
  by (simp_all add: handler_view_def)

lemma step_Submit_refused:
  "trim (input (rendered sys)) = [] \<or> isLoading (rendered sys) \<Longrightarrow> step b sys (Submit now) = sys"
  by (simp add: handleSubmit_start_refused handler_view_fields)

lemma step_Submit_accepted:
  assumes "trim (input (rendered sys)) \<noteq> []" and "\<not> isLoading (rendered sys)"
  shows "step b sys (Submit now) =
    sys\<lparr>ui := (ui sys)\<lparr>messages := messages (ui sys) @
                 [\<lparr>role = User, content = trim (input (rendered sys)), timestamp = now\<rparr>],
               input := [], isLoading := True, error := None\<rparr>,
        in_flight := in_flight sys @ [sendMessage_request b (trim (input (rendered sys)))]\<rparr>"
  using assms by (simp add: handleSubmit_start_accepted handler_view_fields)

text \<open>
  When the handler that takes a submission was rendered with the current value of
  \<open>isLoading\<close>, every event keeps the component consistent.
\<close>

lemma consistent_initial: "consistent (initial_system now)"
  by (simp add: consistent_def initial_system_def initial_state_def)

lemma consistent_step:
  assumes "consistent sys"
    and "\<forall>now. ev = Submit now \<longrightarrow> isLoading (rendered sys) = isLoading (ui sys)"
  shows "consistent (step b sys ev)"
proof (cases ev)
  case Render
  with assms(1) show ?thesis by (simp add: consistent_def)
next
  case (Submit now)
  show ?thesis
  proof (cases "trim (input (rendered sys)) = [] \<or> isLoading (rendered sys)")
    case True
    then show ?thesis using assms(1) Submit by (simp add: step_Submit_refused del: step.simps)
  next
    case False
    moreover from assms(2) Submit have "isLoading (rendered sys) = isLoading (ui sys)" by simp
    ultimately show ?thesis using assms(1) Submit
      by (simp add: step_Submit_accepted consistent_def del: step.simps)
  qed
next
  case (Change v)
  with assms(1) show ?thesis by (simp add: consistent_def)
next
  case (Settle i outcome now)
  show ?thesis
  proof (cases "i < length (in_flight sys)")
    case False
    then show ?thesis using assms(1) Settle by simp
  next
    case True
    with assms(1) have len: "length (in_flight sys) = 1"
      by (simp add: consistent_def split: if_splits)
    with True have i: "i = 0" by simp
    from len obtain r where r: "in_flight sys = [r]" by (cases "in_flight sys") auto
    from Settle i r show ?thesis
      by (simp add: consistent_def messages_handleSubmit_settle isLoading_handleSubmit_settle)
  qed
qed

lemma trim_empty_iff: "trim s = [] \<longleftrightarrow> list_all is_white_space s"
proof
  assume "trim s = []"
  then have a: "\<forall>c \<in> set (dropWhile is_white_space s). is_white_space c"
    by (simp add: trim_def dropWhile_eq_Nil_conv)
  have "dropWhile is_white_space s = []"
  proof (rule ccontr)
    assume n: "dropWhile is_white_space s \<noteq> []"
    then have "\<not> is_white_space (hd (dropWhile is_white_space s))" by (rule hd_dropWhile)
    moreover have "hd (dropWhile is_white_space s) \<in> set (dropWhile is_white_space s)"
      using n by (rule hd_in_set)
    ultimately show False using a by blast
  qed
  then show "list_all is_white_space s" by (simp only: dropWhile_eq_Nil_conv list_all_iff)
next
  assume "list_all is_white_space s"
  then have "dropWhile is_white_space s = []" by (simp only: dropWhile_eq_Nil_conv list_all_iff)
  then show "trim s = []" by (simp only: trim_def dropWhile.simps rev.simps)
qed

lemma handleSubmit_refused:
  "trim (input s) = [] \<or> isLoading s \<Longrightarrow> handleSubmit b fetch s t1 t2 = s"
  by (simp add: handleSubmit_def handleSubmit_start_refused)

lemma handleSubmit_accepted:
  assumes "trim (input s) \<noteq> []" and "\<not> isLoading s"
  shows "messages (handleSubmit b fetch s t1 t2) =
    messages s @ [\<lparr>role = User, content = trim (input s), timestamp = t1\<rparr>,
                  \<lparr>role = Assistant, content = assistant_content (sendMessage b fetch (trim (input s))),
                   timestamp = t2\<rparr>]"
  using assms
  by (simp add: handleSubmit_def handleSubmit_start_accepted messages_handleSubmit_settle)

lemma userFriendlyError_includes: "js_includes (userFriendlyError m) m"
proof -
  have "userFriendlyError m = ''I'm unable to respond right now due to an API quota issue. '' @ m @ []
    \<or> userFriendlyError m = ''Configuration issue: '' @ m @ []
    \<or> userFriendlyError m = ''Sorry, I encountered an error: '' @ m @ ''. Please try again.''"
    by (simp add: userFriendlyError_def)
  then show ?thesis unfolding includes_iff by blast
qed

text \<open>
  C6. A submission whose input is empty or consists of white space only, and a
  submission while a request is pending, changes nothing: \<open>handleSubmit\<close> returns at
  its guard with the state as it was (message log, input, \<open>isLoading\<close> and \<open>error\<close>)
  and hands no message to \<open>sendMessage\<close>, so that no request is issued.
\<close>

theorem handleSubmit_guard_noop:
  assumes "list_all is_white_space (input s) \<or> isLoading s"
  shows "handleSubmit_start s now = (s, None) \<and>
    handleSubmit b fetch s t1 t2 = s \<and>
    step b \<lparr>ui = current, rendered = s, in_flight = pending\<rparr> (Submit now) =
      \<lparr>ui = current, rendered = s, in_flight = pending\<rparr>"
proof -
  from assms have "trim (input s) = [] \<or> isLoading s" by (simp add: trim_empty_iff)
  then show ?thesis
    by (simp add: handleSubmit_start_refused handleSubmit_refused step_Submit_refused del: step.simps)
qed

theorem handleSubmit_guard_noop_witness:
  "list_all is_white_space '' '' \<and>
   handleSubmit_start \<lparr>messages = [], input = '' '', isLoading = False, error = Some ''x''\<rparr> 7 =
     (\<lparr>messages = [], input = '' '', isLoading = False, error = Some ''x''\<rparr>, None) \<and>
   handleSubmit_start \<lparr>messages = [], input = ''hello'', isLoading = True, error = None\<rparr> 7 =
     (\<lparr>messages = [], input = ''hello'', isLoading = True, error = None\<rparr>, None)"
proof -
  have a: "list_all is_white_space '' ''" by code_simp
  show ?thesis
    using a
      handleSubmit_guard_noop [of "\<lparr>messages = [], input = '' '', isLoading = False, error = Some ''x''\<rparr>" 7]
      handleSubmit_guard_noop [of "\<lparr>messages = [], input = ''hello'', isLoading = True, error = None\<rparr>" 7]
    by simp
qed

text \<open>
  C1. A submission of an input that is not blank, while no request is pending, appends
  one user message with the trimmed input at once and hands that text to
  \<open>sendMessage\<close>; when \<open>sendMessage\<close> has settled, one assistant message is appended:
  the reply when it returned, the narration of the error when it threw. The narration
  is the message of the error inside one of three fixed framings, so it contains that
  message. The log grows by exactly two messages and ends with the assistant's.
  Whatever state the second part of \<open>handleSubmit\<close> finds, it appends exactly one
  assistant message.
\<close>

theorem handleSubmit_appends_two:
  assumes "trim (input s) \<noteq> []" and "\<not> isLoading s"
  shows "messages (fst (handleSubmit_start s t1)) =
      messages s @ [\<lparr>role = User, content = trim (input s), timestamp = t1\<rparr>] \<and>
    snd (handleSubmit_start s t1) = Some (trim (input s)) \<and>
    messages (handleSubmit b fetch s t1 t2) =
      messages s @ [\<lparr>role = User, content = trim (input s), timestamp = t1\<rparr>,
                    \<lparr>role = Assistant,
                     content = (case sendMessage b fetch (trim (input s)) of
                                  Inr response \<Rightarrow> reply response
                                | Inl (Error m) \<Rightarrow> userFriendlyError m
                                | Inl NonError \<Rightarrow> userFriendlyError ''Failed to get response. Please try again.''),
                     timestamp = t2\<rparr>] \<and>
    length (messages (handleSubmit b fetch s t1 t2)) = length (messages s) + 2 \<and>
    role (last (messages (handleSubmit b fetch s t1 t2))) = Assistant \<and>
    length (messages (handleSubmit_settle s' result t2)) = length (messages s') + 1 \<and>
    role (last (messages (handleSubmit_settle s' result t2))) = Assistant \<and>
    js_includes (userFriendlyError e) e \<and>
    userFriendlyError e =
      (if js_includes e ''quota'' \<or> js_includes e ''billing''
       then ''I'm unable to respond right now due to an API quota issue. '' @ e
       else if js_includes e ''API key'' then ''Configuration issue: '' @ e
       else ''Sorry, I encountered an error: '' @ e @ ''. Please try again.'')"
  using assms
  by (simp add: handleSubmit_start_accepted handleSubmit_accepted messages_handleSubmit_settle
      assistant_content_def userFriendlyError_includes)
    (simp add: userFriendlyError_def)

theorem handleSubmit_appends_two_witness:
  "trim '' hello '' = ''hello'' \<and>
   messages (handleSubmit ''http://localhost:8000''
      (\<lambda>r. Resolves (OkResponse 200 (Inr \<lparr>reply = ''Hi there''\<rparr>)))
      ((initial_state 0)\<lparr>input := '' hello ''\<rparr>) 1 2) =
     messages (initial_state 0) @
       [\<lparr>role = User, content = ''hello'', timestamp = 1\<rparr>,
        \<lparr>role = Assistant, content = ''Hi there'', timestamp = 2\<rparr>] \<and>
   messages (handleSubmit ''http://localhost:8000''
      (\<lambda>r. Rejects (Error ''Failed to fetch''))
      ((initial_state 0)\<lparr>input := '' hello ''\<rparr>) 1 2) =
     messages (initial_state 0) @
       [\<lparr>role = User, content = ''hello'', timestamp = 1\<rparr>,
        \<lparr>role = Assistant,
         content = ''Sorry, I encountered an error: Unable to connect to the server. Please make sure the backend is running on http://localhost:8000. Please try again.'',
         timestamp = 2\<rparr>] \<and>
   messages (handleSubmit ''http://localhost:8000''
      (\<lambda>r. Resolves (ErrorResponse 429 (Inr (JsonValue \<lparr>detail = Some ''insufficient_quota''\<rparr>))))
      ((initial_state 0)\<lparr>input := '' hello ''\<rparr>) 1 2) =
     messages (initial_state 0) @
       [\<lparr>role = User, content = ''hello'', timestamp = 1\<rparr>,
        \<lparr>role = Assistant,
         content = ''I'm unable to respond right now due to an API quota issue. OpenAI API quota exceeded. Please check your OpenAI account billing and usage limits. You may need to add payment information or upgrade your plan.'',
         timestamp = 2\<rparr>] \<and>
   length (messages (initial_state 0)) = 1"
proof -
  have a: "trim '' hello '' = ''hello''" by code_simp
  have b: "sendMessage ''http://localhost:8000''
      (\<lambda>r. Resolves (OkResponse 200 (Inr \<lparr>reply = ''Hi there''\<rparr>))) ''hello'' = Inr \<lparr>reply = ''Hi there''\<rparr>"
    by code_simp
  have c: "sendMessage ''http://localhost:8000'' (\<lambda>r. Rejects (Error ''Failed to fetch'')) ''hello''
      = Inl (Error ''Unable to connect to the server. Please make sure the backend is running on http://localhost:8000'')"
    by code_simp
  have c': "userFriendlyError ''Unable to connect to the server. Please make sure the backend is running on http://localhost:8000''
      = ''Sorry, I encountered an error: Unable to connect to the server. Please make sure the backend is running on http://localhost:8000. Please try again.''"
    by code_simp
  have d: "sendMessage ''http://localhost:8000''
      (\<lambda>r. Resolves (ErrorResponse 429 (Inr (JsonValue \<lparr>detail = Some ''insufficient_quota''\<rparr>)))) ''hello''
      = Inl (Error ''OpenAI API quota exceeded. Please check your OpenAI account billing and usage limits. You may need to add payment information or upgrade your plan.'')"
    by code_simp
  have d': "userFriendlyError ''OpenAI API quota exceeded. Please check your OpenAI account billing and usage limits. You may need to add payment information or upgrade your plan.''
      = ''I'm unable to respond right now due to an API quota issue. OpenAI API quota exceeded. Please check your OpenAI account billing and usage limits. You may need to add payment information or upgrade your plan.''"
    by code_simp
  have i: "input ((initial_state 0)\<lparr>input := '' hello ''\<rparr>) = '' hello ''"
    "\<not> isLoading ((initial_state 0)\<lparr>input := '' hello ''\<rparr>)"
    "messages ((initial_state 0)\<lparr>input := '' hello ''\<rparr>) = messages (initial_state 0)"
    "length (messages (initial_state 0)) = 1"
    by (simp_all add: initial_state_def)
  have t1: "messages (handleSubmit ''http://localhost:8000''
      (\<lambda>r. Resolves (OkResponse 200 (Inr \<lparr>reply = ''Hi there''\<rparr>)))
      ((initial_state 0)\<lparr>input := '' hello ''\<rparr>) 1 2) =
     messages (initial_state 0) @
       [\<lparr>role = User, content = ''hello'', timestamp = 1\<rparr>,
        \<lparr>role = Assistant, content = ''Hi there'', timestamp = 2\<rparr>]"
    using handleSubmit_appends_two [of "(initial_state 0)\<lparr>input := '' hello ''\<rparr>" 1
        "''http://localhost:8000''" "\<lambda>r. Resolves (OkResponse 200 (Inr \<lparr>reply = ''Hi there''\<rparr>))" 2]
    by (simp only: a b i) simp
  have t2: "messages (handleSubmit ''http://localhost:8000''
      (\<lambda>r. Rejects (Error ''Failed to fetch''))
      ((initial_state 0)\<lparr>input := '' hello ''\<rparr>) 1 2) =
     messages (initial_state 0) @
       [\<lparr>role = User, content = ''hello'', timestamp = 1\<rparr>,
        \<lparr>role = Assistant,
         content = ''Sorry, I encountered an error: Unable to connect to the server. Please make sure the backend is running on http://localhost:8000. Please try again.'',
         timestamp = 2\<rparr>]"
    using handleSubmit_appends_two [of "(initial_state 0)\<lparr>input := '' hello ''\<rparr>" 1
        "''http://localhost:8000''" "\<lambda>r. Rejects (Error ''Failed to fetch'')" 2]
    by (simp only: a c i) (simp add: c')
  have t3: "messages (handleSubmit ''http://localhost:8000''
      (\<lambda>r. Resolves (ErrorResponse 429 (Inr (JsonValue \<lparr>detail = Some ''insufficient_quota''\<rparr>))))
      ((initial_state 0)\<lparr>input := '' hello ''\<rparr>) 1 2) =
     messages (initial_state 0) @
       [\<lparr>role = User, content = ''hello'', timestamp = 1\<rparr>,
        \<lparr>role = Assistant,
         content = ''I'm unable to respond right now due to an API quota issue. OpenAI API quota exceeded. Please check your OpenAI account billing and usage limits. You may need to add payment information or upgrade your plan.'',
         timestamp = 2\<rparr>]"
    using handleSubmit_appends_two [of "(initial_state 0)\<lparr>input := '' hello ''\<rparr>" 1
        "''http://localhost:8000''"
        "\<lambda>r. Resolves (ErrorResponse 429 (Inr (JsonValue \<lparr>detail = Some ''insufficient_quota''\<rparr>)))" 2]
    by (simp only: a d i) (simp add: d')
  show ?thesis using a t1 t2 t3 i(4) by simp
qed


end
